theory Spec2Isabelle
  imports Main "HOL-Library.Log_Nat"
begin

section \<open>Python values used by the two price utilities\<close>

text \<open>
  The development embeds \<^verbatim>\<open>src/main.py\<close> (the direct-quote fetcher) and
  \<^verbatim>\<open>src/stock_price.py\<close> (the Screener.in scraper and its lookup) as HOL functions.
  Python \<^verbatim>\<open>str\<close> values are modelled as \<^typ>\<open>string\<close>, a character being its code
  point: the embedding covers the text whose code points are below 256 (ASCII and the
  Latin-1 supplement), and the string functions below are those of Python on that range.
\<close>

subsection \<open>Strings\<close>

definition is_digit :: "char \<Rightarrow> bool" where
  "is_digit c = (let n = (of_char c :: nat) in 48 \<le> n \<and> n \<le> 57)"

definition digit_val :: "char \<Rightarrow> int" where
  "digit_val c = (of_char c :: int) - 48"

text \<open>
  \<^verbatim>\<open>str.isspace\<close> for one character: TAB, LF, VT, FF, CR, FS, GS, RS, US, SPACE, and the
  two spaces of the Latin-1 supplement, NEL (U+0085) and the no-break space (U+00A0).
\<close>

definition is_space :: "char \<Rightarrow> bool" where
  "is_space c =
     (let n = (of_char c :: nat)
      in (9 \<le> n \<and> n \<le> 13) \<or> (28 \<le> n \<and> n \<le> 32) \<or> n = 133 \<or> n = 160)"

text \<open>\<^verbatim>\<open>s.strip()\<close>: whitespace removed at both ends.\<close>

definition strip :: "string \<Rightarrow> string" where
  "strip s = rev (dropWhile is_space (rev (dropWhile is_space s)))"

text \<open>\<^verbatim>\<open>s.replace(',', '')\<close>: every comma removed.\<close>

definition replace_commas :: "string \<Rightarrow> string" where
  "replace_commas s = filter (\<lambda>c. c \<noteq> CHR '','') s"

text \<open>
  The lowercase form of one character: the letters A to Z, and the capital letters of the
  Latin-1 supplement (U+00C0 to U+00DE without the multiplication sign U+00D7), move up
  by 32; every other character below 256 is its own lowercase form.
\<close>

definition lower_char :: "char \<Rightarrow> char" where
  "lower_char c =
     (let n = (of_char c :: nat)
      in if (65 \<le> n \<and> n \<le> 90) \<or> (192 \<le> n \<and> n \<le> 222 \<and> n \<noteq> 215) then char_of (n + 32)
         else c)"

text \<open>\<^verbatim>\<open>s.lower()\<close>.\<close>

definition lower :: "string \<Rightarrow> string" where
  "lower s = map lower_char s"

text \<open>\<^verbatim>\<open>s.endswith(suffix)\<close>.\<close>

definition endswith :: "string \<Rightarrow> string \<Rightarrow> bool" where
  "endswith s suf = (length suf \<le> length s \<and> drop (length s - length suf) s = suf)"

text \<open>\<^verbatim>\<open>sub in s\<close> on strings: \<open>sub\<close> occurs in \<open>s\<close> as a contiguous block.\<close>

fun py_in :: "string \<Rightarrow> string \<Rightarrow> bool" where
  "py_in sub [] = (sub = [])"
| "py_in sub (c # cs) = (take (length sub) (c # cs) = sub \<or> py_in sub cs)"

subsection \<open>Floats\<close>

text \<open>
  A Python \<^verbatim>\<open>float\<close> is an IEEE binary64 value: a finite number (kept as the rational
  it denotes, both zeros being \<open>Finite 0\<close>), one of the two infinities, or a NaN.
\<close>

datatype pyfloat = Finite rat | PosInf | NegInf | NaN

definition is_finite :: "pyfloat \<Rightarrow> bool" where
  "is_finite x = (case x of Finite q \<Rightarrow> True | _ \<Rightarrow> False)"

definition pow2 :: "int \<Rightarrow> rat" where
  "pow2 e = (if 0 \<le> e then 2 ^ nat e else 1 / 2 ^ nat (- e))"

definition pow10 :: "int \<Rightarrow> rat" where
  "pow10 e = (if 0 \<le> e then 10 ^ nat e else 1 / 10 ^ nat (- e))"

text \<open>The exponent \<open>e\<close> with \<open>2 ^ e \<le> q < 2 ^ (e + 1)\<close>, for a positive \<open>q\<close>.\<close>

definition ilog2 :: "rat \<Rightarrow> int" where
  "ilog2 q = (let (a, b) = quotient_of q; d = bitlen a - bitlen b
              in if pow2 d \<le> q then d else d - 1)"

definition round_half_even :: "rat \<Rightarrow> int" where
  "round_half_even q =
     (let f = \<lfloor>q\<rfloor>; d = q - of_int f
      in if d < 1 / 2 then f else if 1 / 2 < d then f + 1 else if even f then f else f + 1)"

text \<open>
  Rounding of an exact value to binary64 (round to nearest, ties to even): 53 significant
  bits, the smallest spacing \<open>2 ^ -1074\<close>, and overflow to an infinity from \<open>2 ^ 1024\<close> on.
\<close>

definition round_binary64 :: "rat \<Rightarrow> pyfloat" where
  "round_binary64 q =
     (if q = 0 then Finite 0
      else let a = \<bar>q\<bar>;
               u = max (ilog2 a - 52) (- 1074);
               r = of_int (round_half_even (a / pow2 u)) * pow2 u
           in if pow2 1024 \<le> r then (if 0 < q then PosInf else NegInf)
              else Finite (if 0 < q then r else - r))"

text \<open>
  \<^verbatim>\<open>float(s)\<close> on a string, \<open>None\<close> standing for \<^verbatim>\<open>ValueError\<close>. Whitespace is removed
  at both ends: TAB, LF, VT, FF, CR and SPACE, and also NEL and the no-break space, which
  \<^verbatim>\<open>float\<close> turns into blanks first (the separators FS, GS, RS and US are not removed).
  An underscore is accepted only between two digits; what remains is an optional sign followed by \<^verbatim>\<open>inf\<close>, \<^verbatim>\<open>infinity\<close> or
  \<^verbatim>\<open>nan\<close> in any case, or by a decimal number (digits with an optional point and at
  least one digit, then an optional exponent \<^verbatim>\<open>e\<close> or \<^verbatim>\<open>E\<close> with optional sign and
  at least one digit).
\<close>

definition is_float_space :: "char \<Rightarrow> bool" where
  "is_float_space c =
     (let n = (of_char c :: nat) in (9 \<le> n \<and> n \<le> 13) \<or> n = 32 \<or> n = 133 \<or> n = 160)"

fun underscores_ok :: "char \<Rightarrow> string \<Rightarrow> bool" where
  "underscores_ok prev [] = (prev \<noteq> CHR ''_'')"
| "underscores_ok prev (c # cs) =
     ((if c = CHR ''_'' then is_digit prev else (prev = CHR ''_'' \<longrightarrow> is_digit c))
      \<and> underscores_ok c cs)"

definition digits_val :: "string \<Rightarrow> int" where
  "digits_val ds = foldl (\<lambda>acc c. 10 * acc + digit_val c) 0 ds"

text \<open>An optional sign: the factor it stands for and the rest of the text.\<close>

fun split_sign :: "string \<Rightarrow> int \<times> string" where
  "split_sign [] = (1, [])"
| "split_sign (c # cs) =
     (if c = CHR ''-'' then (- 1, cs) else if c = CHR ''+'' then (1, cs) else (1, c # cs))"

text \<open>The exponent part: empty, or \<^verbatim>\<open>e\<close>/\<^verbatim>\<open>E\<close>, an optional sign and digits to the end.\<close>

fun parse_exponent :: "string \<Rightarrow> int option" where
  "parse_exponent [] = Some 0"
| "parse_exponent (c # cs) =
     (if c = CHR ''e'' \<or> c = CHR ''E'' then
        (let (sg, ds) = split_sign cs
         in if ds \<noteq> [] \<and> list_all is_digit ds then Some (sg * digits_val ds) else None)
      else None)"

definition parse_decimal :: "string \<Rightarrow> rat option" where
  "parse_decimal s =
     (let ip = takeWhile is_digit s; r1 = dropWhile is_digit s;
          has_point = (r1 \<noteq> [] \<and> hd r1 = CHR ''.'');
          fp = (if has_point then takeWhile is_digit (tl r1) else []);
          r2 = (if has_point then dropWhile is_digit (tl r1) else r1)
      in if ip = [] \<and> fp = [] then None
         else case parse_exponent r2 of
                None \<Rightarrow> None
              | Some e \<Rightarrow> Some (of_int (digits_val (ip @ fp)) * pow10 (e - int (length fp))))"

definition py_float :: "string \<Rightarrow> pyfloat option" where
  "py_float s =
     (let t = rev (dropWhile is_float_space (rev (dropWhile is_float_space s)))
      in if \<not> underscores_ok (CHR 0x00) t then None
         else let (sg, body) = split_sign (filter (\<lambda>c. c \<noteq> CHR ''_'') t); w = lower body
              in if w = ''inf'' \<or> w = ''infinity'' then Some (if sg < 0 then NegInf else PosInf)
                 else if w = ''nan'' then Some NaN
                 else case parse_decimal body of
                        None \<Rightarrow> None
                      | Some q \<Rightarrow> Some (round_binary64 (of_int sg * q)))"

subsection \<open>Dictionaries\<close>

text \<open>
  A Python \<^verbatim>\<open>dict\<close> keeps its items in insertion order, one item per key, and the
  lookup iterates in that order. It is modelled as an association list; \<open>dict_setitem\<close>
  is \<^verbatim>\<open>d[k] = v\<close> (an existing key keeps its position and takes the new value, a new
  key goes to the end) and \<open>dict_update\<close> is \<^verbatim>\<open>d.update(other)\<close>.
\<close>

type_synonym ('k, 'v) dict = "('k \<times> 'v) list"

fun dict_setitem :: "'k \<Rightarrow> 'v \<Rightarrow> ('k, 'v) dict \<Rightarrow> ('k, 'v) dict" where
  "dict_setitem k v [] = [(k, v)]"
| "dict_setitem k v ((k', v') # rest) =
     (if k' = k then (k', v) # rest else (k', v') # dict_setitem k v rest)"

definition dict_update :: "('k, 'v) dict \<Rightarrow> ('k, 'v) dict \<Rightarrow> ('k, 'v) dict" where
  "dict_update d other = fold (\<lambda>(k, v). dict_setitem k v) other d"

text \<open>\<^verbatim>\<open>d.get(k)\<close>; \<^verbatim>\<open>k in d\<close> is \<open>dict_get d k \<noteq> None\<close>.\<close>

definition dict_get :: "('k, 'v) dict \<Rightarrow> 'k \<Rightarrow> 'v option" where
  "dict_get d k = map_of d k"

definition keys :: "('k, 'v) dict \<Rightarrow> 'k list" where
  "keys d = map fst d"

type_synonym price_table = "(string, pyfloat) dict"

section \<open>The table extractor (\<^verbatim>\<open>ScreenerPriceScraper._parse_table\<close>)\<close>

subsection \<open>The parsed document\<close>

text \<open>
  \<^verbatim>\<open>BeautifulSoup(html, 'html.parser')\<close> turns the page source into a tree of tags and
  strings. The tree is the input of the model: a node is a string or a tag with its name
  and its children (attributes are never read by the scraper). Every string of the tree
  has a class: ordinary text is a \<^verbatim>\<open>NavigableString\<close>, the text inside a \<^verbatim>\<open>script\<close>,
  \<^verbatim>\<open>style\<close>, \<^verbatim>\<open>template\<close>, \<^verbatim>\<open>rt\<close> or \<^verbatim>\<open>rp\<close> tag has the class of that container, and
  comments, CDATA sections, declarations, doctypes and processing instructions have
  theirs.
\<close>

datatype string_class =
  NavigableString | CData | Comment | Declaration | Doctype | ProcessingInstruction
| Script | Stylesheet | TemplateString | RubyTextString | RubyParenthesisString

datatype node = Text string_class string | Tag string "node list"

text \<open>
  \<open>find_all\<close> lists the descendants with a given tag name in document order and
  \<open>find_tag\<close> (the method \<^verbatim>\<open>find\<close>) is the first of them.
\<close>

fun descendants :: "node \<Rightarrow> node list" where
  "descendants (Text k s) = []"
| "descendants (Tag name children) = concat (map (\<lambda>c. c # descendants c) children)"

fun tag_named :: "string \<Rightarrow> node \<Rightarrow> bool" where
  "tag_named name (Text k s) = False"
| "tag_named name (Tag name' children) = (name' = name)"

definition find_all :: "string \<Rightarrow> node \<Rightarrow> node list" where
  "find_all name n = filter (tag_named name) (descendants n)"

definition find_tag :: "string \<Rightarrow> node \<Rightarrow> node option" where
  "find_tag name n = (case find_all name n of [] \<Rightarrow> None | x # _ \<Rightarrow> Some x)"

text \<open>
  \<open>get_text\<close> is the \<^verbatim>\<open>.text\<close> property. On a tag it joins, in document order, the
  strings below the tag whose class is one of the classes the tag is interested in: the
  class of its own container for one of the five container tags, and
  \<^verbatim>\<open>NavigableString\<close> and \<^verbatim>\<open>CData\<close> for every other tag. So the text of a table cell
  leaves out scripts, style sheets, templates and comments inside the cell.
\<close>

definition interesting_string_types :: "string \<Rightarrow> string_class list" where
  "interesting_string_types name =
     (if name = ''script'' then [Script]
      else if name = ''style'' then [Stylesheet]
      else if name = ''template'' then [TemplateString]
      else if name = ''rt'' then [RubyTextString]
      else if name = ''rp'' then [RubyParenthesisString]
      else [NavigableString, CData])"

fun string_of_class :: "string_class list \<Rightarrow> node \<Rightarrow> string" where
  "string_of_class types (Text k s) = (if k \<in> set types then s else [])"
| "string_of_class types (Tag name children) = []"

fun get_text :: "node \<Rightarrow> string" where
  "get_text (Text k s) = s"
| "get_text (Tag name children) =
     concat (map (string_of_class (interesting_string_types name))
               (descendants (Tag name children)))"

subsection \<open>Logging\<close>

datatype log_level = DEBUG | INFO | WARNING | ERROR

type_synonym log = "(log_level \<times> string) list"

subsection \<open>The extraction\<close>

text \<open>
  One pass of the loop body over a row. The three \<^verbatim>\<open>continue\<close> exits leave the
  prices as they are; only a price text that \<^verbatim>\<open>float\<close> accepts stores an entry. The
  outer \<^verbatim>\<open>except Exception\<close> has nothing to catch here: with at least three cells,
  indexing cells 1 and 2 cannot fail.
\<close>

definition parse_row :: "node \<Rightarrow> price_table \<times> log \<Rightarrow> price_table \<times> log" where
  "parse_row row acc =
     (let (prices, lg) = acc; cols = find_all ''td'' row
      in if length cols < 3 then (prices, lg)
         else let name_cell = cols ! 1
              in case find_tag ''a'' name_cell of
                   None \<Rightarrow> (prices, lg)
                 | Some company_link \<Rightarrow>
                     let company_name = strip (get_text company_link);
                         price_cell = cols ! 2;
                         price_text = replace_commas (strip (get_text price_cell))
                     in case py_float price_text of
                          Some price \<Rightarrow> (dict_setitem company_name price prices, lg)
                        | None \<Rightarrow>
                            (prices,
                             lg @ [(DEBUG, ''Could not parse price for '' @ company_name
                                            @ '': '' @ price_text)]))"

text \<open>
  \<^verbatim>\<open>_parse_table\<close>: the first table of the document, its rows without the first one,
  the loop over them. The result is the price table and the log records written.
\<close>

definition parse_table :: "node \<Rightarrow> price_table \<times> log" where
  "parse_table soup =
     (case find_tag ''table'' soup of
        None \<Rightarrow> ([], [(WARNING, ''Table not found in HTML'')])
      | Some table \<Rightarrow> fold parse_row (drop 1 (find_all ''tr'' table)) ([], []))"

text \<open>
  Vocabulary for statements about rows: the company name a row offers (the stripped text
  of the first link in its second cell), the price \<^verbatim>\<open>float\<close> reads from its third cell,
  and the entry a row contributes when it has three cells, a link and a readable price.
\<close>

definition row_name :: "node \<Rightarrow> string option" where
  "row_name row = map_option (\<lambda>a. strip (get_text a)) (find_tag ''a'' (find_all ''td'' row ! 1))"

definition row_price :: "node \<Rightarrow> pyfloat option" where
  "row_price row = py_float (replace_commas (strip (get_text (find_all ''td'' row ! 2))))"

definition row_entry :: "node \<Rightarrow> (string \<times> pyfloat) option" where
  "row_entry row =
     (if 3 \<le> length (find_all ''td'' row) then
        (case row_name row of
           None \<Rightarrow> None
         | Some n \<Rightarrow> (case row_price row of None \<Rightarrow> None | Some p \<Rightarrow> Some (n, p)))
      else None)"

definition unparseable_row :: "node \<Rightarrow> bool" where
  "unparseable_row row = (3 \<le> length (find_all ''td'' row) \<and> row_price row = None)"

definition valid_row :: "node \<Rightarrow> bool" where
  "valid_row row =
     (3 \<le> length (find_all ''td'' row) \<and> find_tag ''a'' (find_all ''td'' row ! 1) \<noteq> None
      \<and> row_price row \<noteq> None)"

text \<open>A list without its element number \<open>k\<close>.\<close>

definition others :: "nat \<Rightarrow> 'a list \<Rightarrow> 'a list" where
  "others k xs = take k xs @ drop (Suc k) xs"


section \<open>The direct-quote fetcher (\<^verbatim>\<open>NIFTY50StockPrice\<close>)\<close>

datatype exn = ProviderError | WebDriverException | TimeoutException

text \<open>
  The quote provider (\<^verbatim>\<open>yfinance\<close>) is outside the program. For a symbol it answers
  \<^verbatim>\<open>fast_info.get('lastPrice')\<close> with a price, with \<^verbatim>\<open>None\<close> or by raising, and
  \<^verbatim>\<open>history(period='1d')\<close> with the \<^verbatim>\<open>Close\<close> column of a frame (empty when the
  frame is empty) or by raising.
\<close>

record provider =
  fast_last_price :: "string \<Rightarrow> exn + pyfloat option"
  history_close :: "string \<Rightarrow> exn + pyfloat list"

text \<open>Lines 40 and 41 of \<^verbatim>\<open>get_price\<close>: the symbol with the exchange suffix.\<close>

definition ensure_suffix :: "string \<Rightarrow> string" where
  "ensure_suffix ticker = (if \<not> endswith ticker ''.NS'' then ticker @ ''.NS'' else ticker)"

text \<open>\<^verbatim>\<open>price is None or price == 0\<close>.\<close>

definition none_or_zero :: "pyfloat option \<Rightarrow> bool" where
  "none_or_zero price = (price = None \<or> price = Some (Finite 0))"

text \<open>The body of the \<^verbatim>\<open>try\<close> block; \<open>Inl\<close> is an exception raised by the provider.\<close>

definition get_price_try :: "provider \<Rightarrow> string \<Rightarrow> exn + pyfloat option" where
  "get_price_try yf ticker0 =
     (let ticker = ensure_suffix ticker0
      in case fast_last_price yf ticker of
           Inl e \<Rightarrow> Inl e
         | Inr price \<Rightarrow>
             (case (if none_or_zero price then
                      (case history_close yf ticker of
                         Inl e \<Rightarrow> Inl e
                       | Inr hist \<Rightarrow> Inr (if hist \<noteq> [] then Some (last hist) else price))
                    else Inr price) of
                Inl e \<Rightarrow> Inl e
              | Inr price' \<Rightarrow> Inr (if none_or_zero price' then None else price')))"

text \<open>\<^verbatim>\<open>NIFTY50StockPrice.get_price\<close>: every exception ends in \<^verbatim>\<open>return None\<close>.\<close>

definition NIFTY50StockPrice_get_price :: "provider \<Rightarrow> string \<Rightarrow> pyfloat option" where
  "NIFTY50StockPrice_get_price yf ticker =
     (case get_price_try yf ticker of Inl e \<Rightarrow> None | Inr r \<Rightarrow> r)"

section \<open>The scrape session (\<^verbatim>\<open>ScreenerPriceScraper\<close>)\<close>

text \<open>
  The browser is outside the program. What it does during one call of
  \<^verbatim>\<open>scrape_all_prices\<close> is given by a script: whether each driver call returns or
  raises, what the two reads of \<^verbatim>\<open>page_source\<close> give (as parsed documents), and whether
  the link with text \<^verbatim>\<open>Next\<close> is found by each of the two searches for it.
\<close>

record browser_script =
  chrome_ok :: bool
  get_ok :: bool
  wait_ok :: bool
  page1 :: "node option"
  next_probe :: bool
  next_found :: bool
  page2 :: "node option"
  quit_ok :: bool

text \<open>
  The commands that reach a browser session, each with the number of the session.
  \<open>New_session\<close> is recorded when \<^verbatim>\<open>webdriver.Chrome\<close> has returned the session.
\<close>

datatype command =
  New_session nat | Get nat | Wait_for_table nat | Page_source nat
| Find_next nat | Click nat | Quit nat

text \<open>The world outside: how many scrapes were started, and the commands issued so far.\<close>

record world =
  scrapes :: nat
  issued :: "command list"

record ScreenerPriceScraper =
  headless :: bool
  driver :: "nat option"
  stock_data :: price_table

definition ScreenerPriceScraper_init :: "bool \<Rightarrow> ScreenerPriceScraper" where
  "ScreenerPriceScraper_init h = \<lparr>headless = h, driver = None, stock_data = []\<rparr>"

definition emit :: "command \<Rightarrow> world \<Rightarrow> world" where
  "emit c w = w\<lparr>issued := issued w @ [c]\<rparr>"

text \<open>
  \<^verbatim>\<open>_has_next_page\<close>: the search for the link, any exception (also the one of a
  scraper without driver) answered with \<^verbatim>\<open>False\<close>.
\<close>

definition has_next_page ::
  "browser_script \<Rightarrow> ScreenerPriceScraper \<Rightarrow> world \<Rightarrow> bool \<times> world" where
  "has_next_page sc s w =
     (case driver s of
        None \<Rightarrow> (False, w)
      | Some i \<Rightarrow> (next_probe sc, emit (Find_next i) w))"

text \<open>
  \<^verbatim>\<open>_click_next_page\<close>: search again and click what was found. An exception of the
  search or of the click is logged and dropped, so the outcome of the click changes nothing.
\<close>

definition click_next_page ::
  "browser_script \<Rightarrow> ScreenerPriceScraper \<Rightarrow> world \<Rightarrow> world" where
  "click_next_page sc s w =
     (case driver s of
        None \<Rightarrow> w
      | Some i \<Rightarrow>
          (let w1 = emit (Find_next i) w
           in if next_found sc then emit (Click i) w1 else w1))"

text \<open>
  The \<^verbatim>\<open>try\<close> block of \<^verbatim>\<open>scrape_all_prices\<close> for session number \<open>i\<close>; \<open>Inl\<close> is an
  exception on its way to the \<^verbatim>\<open>except\<close> clause. The sleeps and the log lines have no
  part in the result and are left out.
\<close>

definition scrape_try ::
  "browser_script \<Rightarrow> nat \<Rightarrow> ScreenerPriceScraper \<Rightarrow> world
     \<Rightarrow> (exn + price_table) \<times> ScreenerPriceScraper \<times> world" where
  "scrape_try sc i s w =
     (if \<not> chrome_ok sc then (Inl WebDriverException, s, w)
      else let s1 = s\<lparr>driver := Some i\<rparr>;
               w1 = emit (Get i) (emit (New_session i) w)
           in if \<not> get_ok sc then (Inl WebDriverException, s1, w1)
              else let w2 = emit (Wait_for_table i) w1
                   in if \<not> wait_ok sc then (Inl TimeoutException, s1, w2)
                      else let w3 = emit (Page_source i) w2
                           in case page1 sc of
                                None \<Rightarrow> (Inl WebDriverException, s1, w3)
                              | Some html1 \<Rightarrow>
                                  (let s2 = s1\<lparr>stock_data := fst (parse_table html1)\<rparr>;
                                       (nxt, w4) = has_next_page sc s2 w3
                                   in if nxt then
                                        (let w5 = emit (Page_source i) (click_next_page sc s2 w4)
                                         in case page2 sc of
                                              None \<Rightarrow> (Inl WebDriverException, s2, w5)
                                            | Some html2 \<Rightarrow>
                                                (let s3 = s2\<lparr>stock_data :=
                                                       dict_update (stock_data s2)
                                                         (fst (parse_table html2))\<rparr>
                                                 in (Inr (stock_data s3), s3, w5)))
                                      else (Inr (stock_data s2), s2, w4)))"

text \<open>
  \<^verbatim>\<open>scrape_all_prices\<close>: the \<^verbatim>\<open>try\<close> block, \<^verbatim>\<open>return {}\<close> after an exception, and
  the \<^verbatim>\<open>finally\<close> clause, which quits the driver the scraper holds. An exception of
  \<^verbatim>\<open>quit\<close> itself leaves the call.
\<close>

definition scrape_all_prices ::
  "(nat \<Rightarrow> browser_script) \<Rightarrow> ScreenerPriceScraper \<Rightarrow> world
     \<Rightarrow> (exn + price_table) \<times> ScreenerPriceScraper \<times> world" where
  "scrape_all_prices web s w =
     (let i = scrapes w; sc = web i;
          (r, s', w') = scrape_try sc i s (w\<lparr>scrapes := Suc i\<rparr>);
          res = (case r of Inl e \<Rightarrow> [] | Inr t \<Rightarrow> t)
      in case driver s' of
           None \<Rightarrow> (Inr res, s', w')
         | Some j \<Rightarrow>
             (if quit_ok sc then (Inr res, s', emit (Quit j) w')
              else (Inl WebDriverException, s', emit (Quit j) w')))"

text \<open>Vocabulary for statements about the commands of a call.\<close>

fun is_click :: "command \<Rightarrow> bool" where
  "is_click (Click i) = True"
| "is_click c = False"

fun is_page_source :: "command \<Rightarrow> bool" where
  "is_page_source (Page_source i) = True"
| "is_page_source c = False"

text \<open>The commands issued between two states of the world.\<close>

definition new_commands :: "world \<Rightarrow> world \<Rightarrow> command list" where
  "new_commands w w' = drop (length (issued w)) (issued w')"

text \<open>The loop of \<^verbatim>\<open>get_price\<close> over the items: the first name that contains the query.\<close>

fun partial_match :: "string \<Rightarrow> price_table \<Rightarrow> pyfloat option" where
  "partial_match company_lower [] = None"
| "partial_match company_lower ((name, price) # rest) =
     (if py_in company_lower (lower name) then Some price
      else partial_match company_lower rest)"

text \<open>\<^verbatim>\<open>ScreenerPriceScraper.get_price\<close>.\<close>

definition ScreenerPriceScraper_get_price ::
  "(nat \<Rightarrow> browser_script) \<Rightarrow> string \<Rightarrow> ScreenerPriceScraper \<Rightarrow> world
     \<Rightarrow> (exn + pyfloat option) \<times> ScreenerPriceScraper \<times> world" where
  "ScreenerPriceScraper_get_price web company_name s w =
     (let (r, s1, w1) =
            (if stock_data s = [] then
               (case scrape_all_prices web s w of
                  (Inl e, s', w') \<Rightarrow> (Inl e, s', w')
                | (Inr t, s', w') \<Rightarrow> (Inr (), s', w'))
             else (Inr (), s, w))
      in case r of
           Inl e \<Rightarrow> (Inl e, s1, w1)
         | Inr u \<Rightarrow>
             (case dict_get (stock_data s1) company_name of
                Some price \<Rightarrow> (Inr (Some price), s1, w1)
              | None \<Rightarrow> (Inr (partial_match (lower company_name) (stock_data s1)), s1, w1)))"

section \<open>The interactive fetcher (\<^verbatim>\<open>InteractiveStockFetcher\<close>)\<close>

record InteractiveStockFetcher =
  scraper :: ScreenerPriceScraper
  prices_loaded :: bool

definition InteractiveStockFetcher_init :: InteractiveStockFetcher where
  "InteractiveStockFetcher_init =
     \<lparr>scraper = ScreenerPriceScraper_init True, prices_loaded = False\<rparr>"

definition load_prices ::
  "(nat \<Rightarrow> browser_script) \<Rightarrow> InteractiveStockFetcher \<Rightarrow> world
     \<Rightarrow> (exn + unit) \<times> InteractiveStockFetcher \<times> world" where
  "load_prices web f w =
     (if \<not> prices_loaded f then
        (case scrape_all_prices web (scraper f) w of
           (Inl e, s', w') \<Rightarrow> (Inl e, f\<lparr>scraper := s'\<rparr>, w')
         | (Inr t, s', w') \<Rightarrow> (Inr (), f\<lparr>scraper := s', prices_loaded := True\<rparr>, w'))
      else (Inr (), f, w))"

definition search_stock ::
  "(nat \<Rightarrow> browser_script) \<Rightarrow> string \<Rightarrow> InteractiveStockFetcher \<Rightarrow> world
     \<Rightarrow> (exn + (string \<times> pyfloat) list) \<times> InteractiveStockFetcher \<times> world" where
  "search_stock web query f w =
     (let (r, f1, w1) = (if \<not> prices_loaded f then load_prices web f w else (Inr (), f, w))
      in case r of
           Inl e \<Rightarrow> (Inl e, f1, w1)
         | Inr u \<Rightarrow>
             (Inr (filter (\<lambda>(name, price). py_in (lower query) (lower name))
                     (stock_data (scraper f1))), f1, w1))"

section \<open>Example inputs\<close>

text \<open>
  The page of the end-to-end example: a header row and three data rows, the third with
  the price text \<^verbatim>\<open>n/a\<close>.
\<close>

definition td :: "string \<Rightarrow> node" where
  "td s = Tag ''td'' [Text NavigableString s]"

definition td_link :: "string \<Rightarrow> node" where
  "td_link s = Tag ''td'' [Tag ''a'' [Text NavigableString s]]"

definition example_header :: node where
  "example_header =
     Tag ''tr''
       [Tag ''th'' [Text NavigableString ''S.No.''], Tag ''th'' [Text NavigableString ''Name''],
        Tag ''th'' [Text NavigableString ''CMP'']]"

definition example_rows :: "node list" where
  "example_rows =
     [Tag ''tr'' [td ''1'', td_link ''Reliance Industries'', td ''1,531.75''],
      Tag ''tr'' [td ''2'', td_link ''HDFC Bank'', td ''1,004.00''],
      Tag ''tr'' [td ''3'', td_link ''XYZ Corp'', td ''n/a'']]"

definition example_table :: node where
  "example_table = Tag ''table'' (example_header # example_rows)"

definition example_page :: node where
  "example_page = Tag ''[document]'' [Tag ''html'' [Tag ''body'' [example_table]]]"

text \<open>A page whose only data row has the price text \<^verbatim>\<open>inf\<close>.\<close>

definition inf_page :: node where
  "inf_page =
     Tag ''[document]''
       [Tag ''table''
          [example_header, Tag ''tr'' [td ''1'', td_link ''XYZ Corp'', td ''inf'']]]"

text \<open>
  A page with three data rows whose price cells hold a script only, a script followed by
  the text 12, and a no-break space followed by 5.
\<close>

definition odd_cells_page :: node where
  "odd_cells_page =
     Tag ''[document]''
       [Tag ''table''
          [example_header,
           Tag ''tr'' [td ''1'', td_link ''S'', Tag ''td'' [Tag ''script'' [Text Script ''1'']]],
           Tag ''tr''
             [td ''2'', td_link ''T'',
              Tag ''td'' [Tag ''script'' [Text Script ''x''], Text NavigableString ''12'']],
           Tag ''tr'' [td ''3'', td_link ''U'', td (CHR 0xA0 # ''5'')]]]"

text \<open>A page without any table.\<close>

definition no_table_page :: node where
  "no_table_page =
     Tag ''[document]''
       [Tag ''html'' [Tag ''body'' [Tag ''p'' [Text NavigableString ''Please log in'']]]]"

text \<open>Two pages of one row each, for the pagination example.\<close>

definition page_A :: node where
  "page_A = Tag ''[document]'' [Tag ''table'' [example_header, Tag ''tr'' [td ''1'', td_link ''A'', td ''10.0'']]]"

definition page_B :: node where
  "page_B = Tag ''[document]'' [Tag ''table'' [example_header, Tag ''tr'' [td ''1'', td_link ''B'', td ''20.0'']]]"

text \<open>
  Browser scripts in which every call returns: one with a \<^verbatim>\<open>Next\<close> link and two pages,
  one with the example page and no link, one with a page that has no table.
\<close>

definition script_two_pages :: browser_script where
  "script_two_pages =
     \<lparr>chrome_ok = True, get_ok = True, wait_ok = True, page1 = Some page_A,
      next_probe = True, next_found = True, page2 = Some page_B, quit_ok = True\<rparr>"

definition script_one_page :: browser_script where
  "script_one_page =
     \<lparr>chrome_ok = True, get_ok = True, wait_ok = True, page1 = Some example_page,
      next_probe = False, next_found = False, page2 = None, quit_ok = True\<rparr>"

definition script_no_table :: browser_script where
  "script_no_table =
     \<lparr>chrome_ok = True, get_ok = True, wait_ok = True, page1 = Some no_table_page,
      next_probe = False, next_found = False, page2 = None, quit_ok = True\<rparr>"

text \<open>A script whose wait for the table times out.\<close>

definition script_timeout :: browser_script where
  "script_timeout =
     \<lparr>chrome_ok = True, get_ok = True, wait_ok = False, page1 = None,
      next_probe = False, next_found = False, page2 = None, quit_ok = True\<rparr>"

definition world0 :: world where
  "world0 = \<lparr>scrapes = 0, issued = []\<rparr>"

text \<open>A scrape on a fresh scraper whose wait for the table times out.\<close>

definition timeout_run :: "(exn + price_table) \<times> ScreenerPriceScraper \<times> world" where
  "timeout_run =
     scrape_all_prices (\<lambda>n. script_timeout) (ScreenerPriceScraper_init True) world0"

text \<open>Two lookups in a row on a fresh scraper, every scrape finding a page without table.\<close>

definition lazy_first ::
  "(exn + pyfloat option) \<times> ScreenerPriceScraper \<times> world" where
  "lazy_first =
     ScreenerPriceScraper_get_price (\<lambda>n. script_no_table) ''TCS''
       (ScreenerPriceScraper_init True) world0"

definition lazy_second ::
  "(exn + pyfloat option) \<times> ScreenerPriceScraper \<times> world" where
  "lazy_second =
     ScreenerPriceScraper_get_price (\<lambda>n. script_no_table) ''TCS''
       (fst (snd lazy_first)) (snd (snd lazy_first))"

text \<open>
  A first lookup on a fresh scraper whose scrape finds the example page, and a first load
  of a fresh interactive fetcher whose scrape finds a page without table.
\<close>

definition loaded_first ::
  "(exn + pyfloat option) \<times> ScreenerPriceScraper \<times> world" where
  "loaded_first =
     ScreenerPriceScraper_get_price (\<lambda>n. script_one_page) ''HDFC''
       (ScreenerPriceScraper_init True) world0"

definition fetch_first :: "(exn + unit) \<times> InteractiveStockFetcher \<times> world" where
  "fetch_first = load_prices (\<lambda>n. script_no_table) InteractiveStockFetcher_init world0"

text \<open>
  Two lookups in a row on a fresh scraper where the first scrape finds a page without
  table and the second scrape finds the two pages of the pagination example.
\<close>

definition web_retry :: "nat \<Rightarrow> browser_script" where
  "web_retry n = (if n = 0 then script_no_table else script_two_pages)"

definition retry_first ::
  "(exn + pyfloat option) \<times> ScreenerPriceScraper \<times> world" where
  "retry_first = ScreenerPriceScraper_get_price web_retry ''A'' (ScreenerPriceScraper_init True) world0"

definition retry_second ::
  "(exn + pyfloat option) \<times> ScreenerPriceScraper \<times> world" where
  "retry_second =
     ScreenerPriceScraper_get_price web_retry ''A'' (fst (snd retry_first)) (snd (snd retry_first))"

text \<open>A loaded table in which a longer name precedes the exact one.\<close>

definition tcs_table :: price_table where
  "tcs_table = [(''TCS Digital'', Finite 10), (''TCS'', Finite 20)]"

definition tcs_scraper :: ScreenerPriceScraper where
  "tcs_scraper = \<lparr>headless = True, driver = None, stock_data = tcs_table\<rparr>"

definition tcs_fetcher :: InteractiveStockFetcher where
  "tcs_fetcher = \<lparr>scraper = tcs_scraper, prices_loaded = True\<rparr>"

text \<open>
  Quote providers: one with a fast price for one symbol that raises for every other, one
  without fast price and with a historical close of 99.5, one with a zero fast price and
  an empty history, one without fast price whose history raises.
\<close>

definition yf_fast :: provider where
  "yf_fast =
     \<lparr>fast_last_price = (\<lambda>s. if s = ''RELIANCE.NS'' then Inr (Some (Finite (6127 / 4))) else Inl ProviderError),
      history_close = (\<lambda>s. Inl ProviderError)\<rparr>"

definition yf_fallback :: provider where
  "yf_fallback =
     \<lparr>fast_last_price = (\<lambda>s. Inr None),
      history_close = (\<lambda>s. if s = ''TCS.NS'' then Inr [Finite 98, Finite (199 / 2)] else Inr [])\<rparr>"

definition yf_none :: provider where
  "yf_none =
     \<lparr>fast_last_price = (\<lambda>s. Inr (Some (Finite 0))), history_close = (\<lambda>s. Inr [])\<rparr>"

definition yf_down :: provider where
  "yf_down =
     \<lparr>fast_last_price = (\<lambda>s. Inr None), history_close = (\<lambda>s. Inl ProviderError)\<rparr>"

section \<open>Properties of the dictionary operations\<close>

lemma dict_setitem_keys: "set (map fst (dict_setitem k v d)) = insert k (set (map fst d))"
  by (induction k v d rule: dict_setitem.induct) auto

lemma dict_setitem_distinct: "distinct (map fst d) \<Longrightarrow> distinct (map fst (dict_setitem k v d))"
  by (induction k v d rule: dict_setitem.induct) (auto simp: dict_setitem_keys simp del: set_map)

lemma dict_setitem_fresh: "k \<notin> set (map fst d) \<Longrightarrow> dict_setitem k v d = d @ [(k, v)]"
  by (induction k v d rule: dict_setitem.induct) auto

lemma map_of_dict_setitem: "map_of (dict_setitem k v d) = (map_of d)(k \<mapsto> v)"
  by (induction k v d rule: dict_setitem.induct) (auto simp: fun_eq_iff)

lemma set_dict_setitem: "set (dict_setitem k v d) \<subseteq> insert (k, v) (set d)"
  by (induction k v d rule: dict_setitem.induct) auto

lemma dict_update_Nil: "dict_update d [] = d"
  by (simp add: dict_update_def)

lemma dict_update_Cons: "dict_update d ((k, v) # es) = dict_update (dict_setitem k v d) es"
  by (simp add: dict_update_def)

lemma dict_update_disjoint:
  "distinct (map fst es) \<Longrightarrow> set (map fst es) \<inter> set (map fst d) = {} \<Longrightarrow> dict_update d es = d @ es"
proof (induction es arbitrary: d)
  case Nil
  then show ?case by (simp add: dict_update_Nil)
next
  case (Cons e es)
  obtain k v where e: "e = (k, v)" by (cases e)
  from Cons.prems e have fresh: "k \<notin> set (map fst d)" by auto
  have step: "dict_setitem k v d = d @ [(k, v)]" using fresh by (rule dict_setitem_fresh)
  have "dict_update (d @ [(k, v)]) es = (d @ [(k, v)]) @ es"
    using Cons.prems e by (intro Cons.IH) auto
  then show ?case by (simp add: e dict_update_Cons step)
qed

lemma map_of_dict_update: "map_of (dict_update d es) = map_of d ++ map_of (rev es)"
proof (induction es arbitrary: d)
  case Nil
  then show ?case by (simp add: dict_update_Nil)
next
  case (Cons e es)
  obtain k v where e: "e = (k, v)" by (cases e)
  show ?case
    by (simp add: e dict_update_Cons Cons.IH map_of_dict_setitem fun_eq_iff map_add_def split: option.splits)
qed

lemma set_dict_update: "set (dict_update d es) \<subseteq> set d \<union> set es"
proof (induction es arbitrary: d)
  case Nil
  then show ?case by (simp add: dict_update_Nil)
next
  case (Cons e es)
  obtain k v where e: "e = (k, v)" by (cases e)
  have "set (dict_update (dict_setitem k v d) es) \<subseteq> set (dict_setitem k v d) \<union> set es"
    by (rule Cons.IH)
  also have "\<dots> \<subseteq> insert (k, v) (set d) \<union> set es"
    using set_dict_setitem [of k v d] by auto
  finally show ?case by (auto simp: e dict_update_Cons)
qed

lemma distinct_dict_update: "distinct (map fst d) \<Longrightarrow> distinct (map fst (dict_update d es))"
proof (induction es arbitrary: d)
  case Nil
  then show ?case by (simp add: dict_update_Nil)
next
  case (Cons e es)
  obtain k v where e: "e = (k, v)" by (cases e)
  show ?case using Cons.prems by (simp add: e dict_update_Cons Cons.IH dict_setitem_distinct)
qed

section \<open>Properties of the table extractor\<close>

lemma parse_row_fst:
  "fst (parse_row row (prices, lg)) =
     (case row_entry row of None \<Rightarrow> prices | Some (n, p) \<Rightarrow> dict_setitem n p prices)"
  by (simp add: parse_row_def row_entry_def row_name_def row_price_def Let_def
           split: option.splits)

lemma fold_parse_row_fst:
  "fst (fold parse_row rows (prices, lg)) = dict_update prices (List.map_filter row_entry rows)"
proof (induction rows arbitrary: prices lg)
  case Nil
  then show ?case by (simp add: dict_update_Nil List.map_filter_simps)
next
  case (Cons row rows)
  obtain p' l' where step: "parse_row row (prices, lg) = (p', l')" by (cases "parse_row row (prices, lg)")
  have p': "p' = (case row_entry row of None \<Rightarrow> prices | Some (n, p) \<Rightarrow> dict_setitem n p prices)"
    using parse_row_fst [of row prices lg] step by simp
  show ?case
    by (simp add: step Cons.IH p' List.map_filter_simps dict_update_Cons split: option.splits)
qed

lemma parse_table_fst:
  "fst (parse_table soup) =
     (case find_tag ''table'' soup of
        None \<Rightarrow> []
      | Some table \<Rightarrow> dict_update [] (List.map_filter row_entry (drop 1 (find_all ''tr'' table))))"
  by (simp add: parse_table_def fold_parse_row_fst split: option.splits)

lemma distinct_parse_table: "distinct (map fst (fst (parse_table soup)))"
  by (simp add: parse_table_fst distinct_dict_update split: option.splits)


lemma row_entry_valid: "row_entry row \<noteq> None \<longleftrightarrow> valid_row row"
  by (auto simp: row_entry_def valid_row_def row_name_def split: option.splits)

lemma row_entry_unparseable: "unparseable_row row \<Longrightarrow> row_entry row = None"
  by (simp add: row_entry_def unparseable_row_def split: option.splits)

lemma row_entry_SomeD:
  "row_entry row = Some (n, p) \<Longrightarrow>
     3 \<le> length (find_all ''td'' row) \<and> row_name row = Some n \<and> row_price row = Some p"
  by (auto simp: row_entry_def split: option.splits if_splits)

lemma length_others: "k < length xs \<Longrightarrow> length (others k xs) = length xs - 1"
  by (auto simp: others_def)

lemma others_nth:
  assumes "k < length xs" "i < length xs - 1"
  shows "others k xs ! i = xs ! (if i < k then i else Suc i)"
  using assms by (auto simp: others_def nth_append min_def)

lemma others_set:
  assumes k: "k < length xs" and r: "r \<in> set (others k xs)"
  shows "\<exists>i<length xs. i \<noteq> k \<and> r = xs ! i"
proof -
  from r obtain i where i: "i < length (others k xs)" "r = others k xs ! i"
    by (auto simp: in_set_conv_nth)
  let ?j = "if i < k then i else Suc i"
  have il: "i < length xs - 1" using i(1) length_others [OF k] by simp
  have "r = xs ! ?j" using i(2) others_nth [OF k il] by simp
  moreover have "?j < length xs" "?j \<noteq> k" using il k by auto
  ultimately show ?thesis by blast
qed

lemma others_distinct:
  assumes k: "k < length xs"
    and names: "\<forall>i<length xs. \<forall>j<length xs. i \<noteq> k \<and> j \<noteq> k \<and> i \<noteq> j \<longrightarrow> f (xs ! i) \<noteq> f (xs ! j)"
  shows "distinct (map f (others k xs))"
proof (unfold distinct_conv_nth, intro allI impI)
  fix i j
  assume "i < length (map f (others k xs))" and "j < length (map f (others k xs))" and ij: "i \<noteq> j"
  then have i: "i < length xs - 1" and j: "j < length xs - 1"
    using length_others [OF k] by simp_all
  let ?i = "if i < k then i else Suc i" and ?j = "if j < k then j else Suc j"
  have a: "others k xs ! i = xs ! ?i" using others_nth [OF k i] .
  have b: "others k xs ! j = xs ! ?j" using others_nth [OF k j] .
  have "?i < length xs" "?j < length xs" "?i \<noteq> k" "?j \<noteq> k" "?i \<noteq> ?j"
    using i j ij k by auto
  then have "f (xs ! ?i) \<noteq> f (xs ! ?j)" using names by blast
  then have "f (others k xs ! i) \<noteq> f (others k xs ! j)" using a b by simp
  moreover have "i < length (others k xs)" "j < length (others k xs)"
    using i j length_others [OF k] by simp_all
  ultimately show "map f (others k xs) ! i \<noteq> map f (others k xs) ! j" by simp
qed

lemma map_filter_all: "\<forall>r\<in>set xs. f r \<noteq> None \<Longrightarrow> List.map_filter f xs = map (the \<circ> f) xs"
  by (induction xs) (auto simp: List.map_filter_simps)

lemma map_filter_app: "List.map_filter f (xs @ ys) = List.map_filter f xs @ List.map_filter f ys"
  by (simp add: List.map_filter_def)

lemma map_filter_others:
  assumes k: "k < length xs"
    and bad: "f (xs ! k) = None"
    and good: "\<forall>i<length xs. i \<noteq> k \<longrightarrow> f (xs ! i) \<noteq> None"
  shows "List.map_filter f xs = map (the \<circ> f) (others k xs)"
proof -
  have split: "xs = take k xs @ [xs ! k] @ drop (Suc k) xs"
    using id_take_nth_drop [OF k] by simp
  have all: "\<forall>r\<in>set (others k xs). f r \<noteq> None"
    using others_set [OF k] good by blast
  have one: "List.map_filter f [xs ! k] = []"
    using bad by (simp add: List.map_filter_simps)
  have "List.map_filter f xs = List.map_filter f (take k xs @ [xs ! k] @ drop (Suc k) xs)"
    using split by simp
  also have "\<dots> = List.map_filter f (take k xs) @ List.map_filter f (drop (Suc k) xs)"
    by (simp only: map_filter_app one append_Nil)
  also have "\<dots> = List.map_filter f (others k xs)"
    by (simp only: map_filter_app others_def)
  also have "\<dots> = map (the \<circ> f) (others k xs)"
    using all by (rule map_filter_all)
  finally show ?thesis .
qed

text \<open>
  Claim C1 (row-level fault isolation). Let the first table of the document have a header
  row followed by the data rows \<open>rows\<close>. The header row is skipped whatever it holds.
  If row \<open>k\<close> has a third cell whose cleaned text \<^verbatim>\<open>float\<close> rejects, and every other row
  has at least three cells, a link in its second cell and a readable price, the names of
  the other rows being pairwise different, then the price table has exactly
  \<open>length rows - 1\<close> entries: the entries of the other rows, in their order.
\<close>

theorem row_fault_isolation:
  assumes tbl: "find_tag ''table'' soup = Some table"
    and rows: "find_all ''tr'' table = header # rows"
    and k: "k < length rows"
    and bad: "unparseable_row (rows ! k)"
    and good: "\<forall>i<length rows. i \<noteq> k \<longrightarrow> valid_row (rows ! i)"
    and names: "\<forall>i<length rows. \<forall>j<length rows.
                  i \<noteq> k \<and> j \<noteq> k \<and> i \<noteq> j \<longrightarrow> row_name (rows ! i) \<noteq> row_name (rows ! j)"
  shows "length (fst (parse_table soup)) = length rows - 1
         \<and> map (\<lambda>(n, p). (Some n, Some p)) (fst (parse_table soup))
             = map (\<lambda>r. (row_name r, row_price r)) (others k rows)"
proof -
  define os where "os = others k rows"
  define es where "es = map (the \<circ> row_entry) os"
  have len: "length os = length rows - 1" unfolding os_def using k by (rule length_others)
  have good': "\<forall>i<length rows. i \<noteq> k \<longrightarrow> row_entry (rows ! i) \<noteq> None"
    using good row_entry_valid by blast
  have mf: "List.map_filter row_entry rows = es"
    unfolding es_def os_def using k row_entry_unparseable [OF bad] good' by (rule map_filter_others)
  have some: "\<forall>r\<in>set os. row_entry r \<noteq> None"
    unfolding os_def using others_set [OF k] good' by blast
  have entry: "(\<lambda>(n, p). (Some n, Some p)) (the (row_entry r)) = (row_name r, row_price r)"
    if "r \<in> set os" for r
  proof -
    from that some obtain n p where "row_entry r = Some (n, p)" by fastforce
    then show ?thesis using row_entry_SomeD [of r n p] by simp
  qed
  have fst_entry: "fst (the (row_entry r)) = the (row_name r)" if "r \<in> set os" for r
    using entry [OF that] by (cases "the (row_entry r)") (auto dest: sym)
  have fsts: "map fst es = map the (map row_name os)"
    unfolding es_def using fst_entry by simp
  have dn: "distinct (map row_name os)" unfolding os_def using k names by (rule others_distinct)
  have nsome: "row_name r \<noteq> None" if "r \<in> set os" for r
    using entry [OF that] by (cases "the (row_entry r)") (auto dest: sym)
  have "distinct (map the (map row_name os))"
  proof (rule iffD2 [OF distinct_map], intro conjI)
    show "distinct (map row_name os)" by (rule dn)
    show "inj_on the (set (map row_name os))"
    proof (rule inj_onI)
      fix a b
      assume a: "a \<in> set (map row_name os)" and b: "b \<in> set (map row_name os)"
        and eq: "the a = the b"
      from a nsome have "a \<noteq> None" by auto
      moreover from b nsome have "b \<noteq> None" by auto
      ultimately show "a = b" using eq by auto
    qed
  qed
  then have dist: "distinct (map fst es)" by (simp only: fsts)
  have "fst (parse_table soup) = dict_update [] (List.map_filter row_entry rows)"
    by (simp add: parse_table_fst tbl rows)
  also have "\<dots> = [] @ es"
    unfolding mf using dist by (intro dict_update_disjoint) simp_all
  finally have res: "fst (parse_table soup) = es" by simp
  have "map (\<lambda>(n, p). (Some n, Some p)) es = map (\<lambda>r. (row_name r, row_price r)) os"
    unfolding es_def using entry by simp
  then show ?thesis using res len by (simp add: es_def os_def)
qed

subsection \<open>The end-to-end example\<close>

lemma example_tbl: "find_tag ''table'' example_page = Some example_table"
  by code_simp

lemma example_trs: "find_all ''tr'' example_table = example_header # example_rows"
  by code_simp

lemma example_bad: "unparseable_row (example_rows ! 2)"
  by code_simp

lemma example_good0: "valid_row (example_rows ! 0)"
  by code_simp

lemma example_good1: "valid_row (example_rows ! 1)"
  by code_simp

lemma example_names: "row_name (example_rows ! 0) \<noteq> row_name (example_rows ! 1)"
  by code_simp

lemma example_len: "length example_rows = 3"
  by (simp add: example_rows_def)

text \<open>
  The end-to-end example: of the three data rows the third one (\<^verbatim>\<open>n/a\<close>) is dropped and
  two entries remain.
\<close>

theorem row_fault_isolation_witness:
  "unparseable_row (example_rows ! 2) \<and> valid_row (example_rows ! 0) \<and> valid_row (example_rows ! 1)
   \<and> length (fst (parse_table example_page)) = 2"
proof -
  have k: "2 < length example_rows" by (simp add: example_len)
  have good: "\<forall>i<length example_rows. i \<noteq> 2 \<longrightarrow> valid_row (example_rows ! i)"
    using example_good0 example_good1 by (auto simp: example_len less_Suc_eq numeral_3_eq_3)
  have names: "\<forall>i<length example_rows. \<forall>j<length example_rows.
      i \<noteq> 2 \<and> j \<noteq> 2 \<and> i \<noteq> j \<longrightarrow> row_name (example_rows ! i) \<noteq> row_name (example_rows ! j)"
    using example_names by (auto simp: example_len less_Suc_eq numeral_3_eq_3)
  show ?thesis
    using row_fault_isolation [OF example_tbl example_trs k example_bad good names]
      example_bad example_good0 example_good1
    by (simp add: example_len)
qed

lemma example_result:
  "fst (parse_table example_page) = [(''Reliance Industries'', Finite (6127 / 4)), (''HDFC Bank'', Finite 1004)]"
  by code_simp

lemma no_table_result: "fst (parse_table no_table_page) = []"
  by code_simp

text \<open>
  A script inside a price cell is no part of the text of the cell, and a no-break space
  around a price is stripped: the first row stores nothing, the other two store 12 and 5.
\<close>

lemma odd_cells_result: "fst (parse_table odd_cells_page) = [(''T'', Finite 12), (''U'', Finite 5)]"
  by code_simp

lemma inf_page_result: "fst (parse_table inf_page) = [(''XYZ Corp'', PosInf)]"
  by code_simp

lemma map_filter_SomeD: "e \<in> set (List.map_filter f xs) \<Longrightarrow> \<exists>x\<in>set xs. f x = Some e"
  by (auto simp: List.map_filter_def)

text \<open>
  Claim C6, as the code has it (price table values). Every entry of the price table goes
  back to a data row of the first table that has at least three cells and a link, and
  its value is the number that \<^verbatim>\<open>float\<close> returned for the cleaned text of the third cell
  of that row; a row whose price text \<^verbatim>\<open>float\<close> rejects stores nothing, so no absent
  value is ever stored. The value is whatever \<^verbatim>\<open>float\<close> accepts, which includes the
  infinities and NaN.
\<close>

theorem price_values_parsed:
  "(\<forall>(n, v)\<in>set (fst (parse_table soup)).
      \<exists>table row. find_tag ''table'' soup = Some table
        \<and> row \<in> set (drop 1 (find_all ''tr'' table))
        \<and> 3 \<le> length (find_all ''td'' row)
        \<and> row_name row = Some n \<and> row_price row = Some v)
   \<and> (\<forall>row prices lg. row_price row = None \<longrightarrow> fst (parse_row row (prices, lg)) = prices)"
proof (intro conjI ballI allI impI)
  fix e assume e: "e \<in> set (fst (parse_table soup))"
  obtain n v where nv: "e = (n, v)" by (cases e)
  show "case e of (n, v) \<Rightarrow>
      \<exists>table row. find_tag ''table'' soup = Some table
        \<and> row \<in> set (drop 1 (find_all ''tr'' table))
        \<and> 3 \<le> length (find_all ''td'' row)
        \<and> row_name row = Some n \<and> row_price row = Some v"
  proof (cases "find_tag ''table'' soup")
    case None
    then show ?thesis using e by (simp add: parse_table_fst)
  next
    case (Some table)
    let ?rows = "drop 1 (find_all ''tr'' table)"
    have "e \<in> set (dict_update [] (List.map_filter row_entry ?rows))"
      using e Some by (simp add: parse_table_fst)
    then have "e \<in> set (List.map_filter row_entry ?rows)"
      using set_dict_update [of "[]" "List.map_filter row_entry ?rows"] by auto
    then obtain row where row: "row \<in> set ?rows" "row_entry row = Some (n, v)"
      using map_filter_SomeD nv by fastforce
    show ?thesis using Some row row_entry_SomeD [OF row(2)] nv by auto
  qed
next
  fix row :: node and prices :: price_table and lg :: log
  assume "row_price row = None"
  then show "fst (parse_row row (prices, lg)) = prices"
    by (simp add: parse_row_fst row_entry_def split: option.splits)
qed

text \<open>
  The example page: the entry of \<open>HDFC Bank\<close> goes back to a row of the table, and the
  third row, whose price text is rejected, stores nothing.
\<close>

theorem price_values_parsed_witness:
  "(''HDFC Bank'', Finite 1004) \<in> set (fst (parse_table example_page))
   \<and> (\<exists>table row. find_tag ''table'' example_page = Some table
          \<and> row \<in> set (drop 1 (find_all ''tr'' table))
          \<and> 3 \<le> length (find_all ''td'' row)
          \<and> row_name row = Some ''HDFC Bank'' \<and> row_price row = Some (Finite 1004))
   \<and> row_price (example_rows ! 2) = None
   \<and> fst (parse_row (example_rows ! 2) ([], [])) = []"
proof -
  have mem: "(''HDFC Bank'', Finite 1004) \<in> set (fst (parse_table example_page))"
    by (simp add: example_result)
  have none: "row_price (example_rows ! 2) = None"
    using example_bad by (simp add: unparseable_row_def)
  have origin: "\<exists>table row. find_tag ''table'' example_page = Some table
          \<and> row \<in> set (drop 1 (find_all ''tr'' table))
          \<and> 3 \<le> length (find_all ''td'' row)
          \<and> row_name row = Some ''HDFC Bank'' \<and> row_price row = Some (Finite 1004)"
    using price_values_parsed [of example_page] mem by fast
  have dropped: "fst (parse_row (example_rows ! 2) ([], [])) = []"
    using price_values_parsed [of example_page] none by blast
  show ?thesis using mem origin none dropped by blast
qed

text \<open>
  The value need not be finite: the price text \<^verbatim>\<open>inf\<close> is accepted by \<^verbatim>\<open>float\<close> and
  stored as positive infinity.
\<close>

theorem price_not_finite_counterexample:
  "dict_get (fst (parse_table inf_page)) ''XYZ Corp'' = Some PosInf \<and> \<not> is_finite PosInf"
  by (simp add: inf_page_result dict_get_def is_finite_def)




section \<open>Properties of the direct-quote fetcher\<close>

lemma endswith_append: "endswith (s @ suf) suf"
  by (simp add: endswith_def)

text \<open>
  Claim C9 (symbol normalization is idempotent). Adding the exchange suffix to a symbol
  that went through the normalization already changes nothing: the suffix is appended
  at most once, and the normalized symbol ends with it.
\<close>

theorem symbol_normalization_idempotent:
  "ensure_suffix (ensure_suffix s) = ensure_suffix s \<and> endswith (ensure_suffix s) ''.NS''"
  by (simp add: ensure_suffix_def endswith_append)

text \<open>
  Claim C5 (quote fallback and explicit failure). With \<open>ensure_suffix t\<close> the symbol
  sent to the provider: a fast price that is present and not zero is returned; when it
  is absent or zero, the last close of a non-empty one-day history is returned unless
  that is zero; when both are absent or zero the result is \<open>None\<close>; and an exception
  of the provider also ends in \<open>None\<close>, never in an exception of \<^verbatim>\<open>get_price\<close>.
\<close>

theorem quote_fallback:
  "(fast_last_price yf (ensure_suffix t) = Inr (Some p) \<and> p \<noteq> Finite 0
      \<longrightarrow> NIFTY50StockPrice_get_price yf t = Some p)
   \<and> (fast_last_price yf (ensure_suffix t) = Inr fp \<and> (fp = None \<or> fp = Some (Finite 0))
        \<and> history_close yf (ensure_suffix t) = Inr hist \<and> hist \<noteq> [] \<and> last hist \<noteq> Finite 0
      \<longrightarrow> NIFTY50StockPrice_get_price yf t = Some (last hist))
   \<and> (fast_last_price yf (ensure_suffix t) = Inr fp \<and> (fp = None \<or> fp = Some (Finite 0))
        \<and> history_close yf (ensure_suffix t) = Inr hist \<and> (hist = [] \<or> last hist = Finite 0)
      \<longrightarrow> NIFTY50StockPrice_get_price yf t = None)
   \<and> (fast_last_price yf (ensure_suffix t) = Inl e
      \<longrightarrow> NIFTY50StockPrice_get_price yf t = None)
   \<and> (fast_last_price yf (ensure_suffix t) = Inr fp \<and> (fp = None \<or> fp = Some (Finite 0))
        \<and> history_close yf (ensure_suffix t) = Inl e
      \<longrightarrow> NIFTY50StockPrice_get_price yf t = None)"
  by (auto simp: NIFTY50StockPrice_get_price_def get_price_try_def none_or_zero_def Let_def)

text \<open>
  A fast price of 1531.75; no fast price and a last close of 99.5; a zero fast price and
  an empty history; a provider that raises at the fast price; a provider without fast
  price that raises at the history.
\<close>

theorem quote_fallback_witness:
  "NIFTY50StockPrice_get_price yf_fast ''RELIANCE'' = Some (Finite (6127 / 4))
   \<and> NIFTY50StockPrice_get_price yf_fallback ''TCS'' = Some (Finite (199 / 2))
   \<and> NIFTY50StockPrice_get_price yf_none ''XYZ.NS'' = None
   \<and> NIFTY50StockPrice_get_price yf_fast ''TCS'' = None
   \<and> NIFTY50StockPrice_get_price yf_down ''TCS'' = None"
  using quote_fallback [of yf_fast "''RELIANCE''" "Finite (6127 / 4)" None "[]" ProviderError]
    quote_fallback [of yf_fallback "''TCS''" NaN None "[Finite 98, Finite (199 / 2)]" ProviderError]
    quote_fallback [of yf_none "''XYZ.NS''" NaN "Some (Finite 0)" "[]" ProviderError]
    quote_fallback [of yf_fast "''TCS''" NaN None "[]" ProviderError]
    quote_fallback [of yf_down "''TCS''" NaN None "[]" ProviderError]
  by (simp add: yf_fast_def yf_fallback_def yf_none_def yf_down_def ensure_suffix_def endswith_def)

section \<open>Properties of the scrape session\<close>

lemmas scrape_defs = scrape_all_prices_def scrape_try_def has_next_page_def click_next_page_def
  emit_def new_commands_def Let_def

lemma scrape_counts: "scrape_all_prices web s w = (r, s', w') \<Longrightarrow> scrapes w' = Suc (scrapes w)"
  by (auto simp: scrape_defs split: option.splits if_splits prod.splits sum.splits)

text \<open>
  Claim C2 (the browser session is released). Whenever a call of \<^verbatim>\<open>scrape_all_prices\<close>
  has created session \<open>i\<close>, the commands of that call end with \<open>Quit i\<close>: the quit comes
  after the creation, is the last command before the call returns or raises, and is
  issued once. This holds for every script, so on every exit path of the \<^verbatim>\<open>try\<close> block.
\<close>

theorem session_released:
  assumes run: "scrape_all_prices web s w = (r, s', w')"
    and created: "New_session i \<in> set (new_commands w w')"
  shows "new_commands w w' \<noteq> [] \<and> last (new_commands w w') = Quit i
         \<and> New_session i \<in> set (butlast (new_commands w w'))
         \<and> Quit i \<notin> set (butlast (new_commands w w'))"
  using assms
  by (auto simp: scrape_defs split: option.splits if_splits prod.splits sum.splits)

lemma timeout_run_value:
  "timeout_run =
     (Inr [], \<lparr>headless = True, driver = Some 0, stock_data = []\<rparr>,
      \<lparr>scrapes = 1, issued = [New_session 0, Get 0, Wait_for_table 0, Quit 0]\<rparr>)"
  by (simp add: timeout_run_def scrape_defs script_timeout_def world0_def
        ScreenerPriceScraper_init_def)

text \<open>The exception path: the wait times out, the result is empty, the session is quit.\<close>

theorem session_released_witness:
  "New_session 0 \<in> set (new_commands world0 (snd (snd timeout_run)))
   \<and> fst timeout_run = Inr []
   \<and> last (new_commands world0 (snd (snd timeout_run))) = Quit 0
   \<and> Quit 0 \<notin> set (butlast (new_commands world0 (snd (snd timeout_run))))"
proof -
  have run: "scrape_all_prices (\<lambda>n. script_timeout) (ScreenerPriceScraper_init True) world0
             = (fst timeout_run, fst (snd timeout_run), snd (snd timeout_run))"
    by (simp add: timeout_run_def)
  have created: "New_session 0 \<in> set (new_commands world0 (snd (snd timeout_run)))"
    by (simp add: timeout_run_value new_commands_def world0_def)
  show ?thesis
    using session_released [OF run created] created by (simp add: timeout_run_value)
qed

lemma map_of_rev_distinct: "distinct (map fst es) \<Longrightarrow> map_of (rev es) = map_of es"
proof (induction es)
  case Nil
  then show ?case by simp
next
  case (Cons e es)
  obtain k v where e: "e = (k, v)" by (cases e)
  from Cons.prems e have "k \<notin> fst ` set es" by auto
  then have none: "map_of es k = None" by (simp add: map_of_eq_None_iff)
  have ih: "map_of (rev es) = map_of es" using Cons by simp
  show ?case
    using none by (auto simp: e map_of_append ih fun_eq_iff map_add_def split: option.splits)
qed

lemma dict_get_update:
  assumes "distinct (map fst t2)"
  shows "dict_get (dict_update t1 t2) n = (case dict_get t2 n of Some v \<Rightarrow> Some v | None \<Rightarrow> dict_get t1 n)"
  using assms
  by (simp add: dict_get_def map_of_dict_update map_of_rev_distinct map_add_def split: option.splits)

text \<open>
  Claim C7 (pagination traversal). No call clicks more than once or reads the page source
  more than twice, so a third page is never attempted. When the driver calls of the session
  succeed: without a \<^verbatim>\<open>Next\<close> link the result is the table of page 1 alone, with one page
  read and no click; with the link, the commands of the call are, in this order, the read
  of page 1, the probe for the link, the second search and the click on the link, the read
  of page 2 and the quit, and the result is the table of page 1 updated with the table of
  page 2, where an entry of page 2 overrides the entry of page 1 with the same name and
  disjoint pages give the first table followed by the second.
\<close>

theorem pagination_traversal:
  assumes run: "scrape_all_prices web s w = (r, s', w')"
  shows "length (filter is_click (new_commands w w')) \<le> 1
         \<and> length (filter is_page_source (new_commands w w')) \<le> 2
         \<and> (chrome_ok (web (scrapes w)) \<and> get_ok (web (scrapes w)) \<and> wait_ok (web (scrapes w))
              \<and> page1 (web (scrapes w)) = Some html1 \<and> quit_ok (web (scrapes w)) \<longrightarrow>
             (\<not> next_probe (web (scrapes w)) \<longrightarrow>
                r = Inr (fst (parse_table html1)) \<and> stock_data s' = fst (parse_table html1)
                \<and> filter is_click (new_commands w w') = []
                \<and> length (filter is_page_source (new_commands w w')) = 1
                \<and> new_commands w w' =
                    [New_session (scrapes w), Get (scrapes w), Wait_for_table (scrapes w),
                     Page_source (scrapes w), Find_next (scrapes w), Quit (scrapes w)])
             \<and> (next_probe (web (scrapes w)) \<and> page2 (web (scrapes w)) = Some html2 \<longrightarrow>
                  r = Inr (dict_update (fst (parse_table html1)) (fst (parse_table html2)))
                  \<and> stock_data s' = dict_update (fst (parse_table html1)) (fst (parse_table html2))
                  \<and> (next_found (web (scrapes w)) \<longrightarrow> length (filter is_click (new_commands w w')) = 1)
                  \<and> length (filter is_page_source (new_commands w w')) = 2
                  \<and> new_commands w w' =
                      [New_session (scrapes w), Get (scrapes w), Wait_for_table (scrapes w),
                       Page_source (scrapes w), Find_next (scrapes w), Find_next (scrapes w)]
                      @ (if next_found (web (scrapes w)) then [Click (scrapes w)] else [])
                      @ [Page_source (scrapes w), Quit (scrapes w)]
                  \<and> (\<forall>n. dict_get (dict_update (fst (parse_table html1)) (fst (parse_table html2))) n
                         = (case dict_get (fst (parse_table html2)) n of
                              Some v \<Rightarrow> Some v
                            | None \<Rightarrow> dict_get (fst (parse_table html1)) n))
                  \<and> (set (keys (fst (parse_table html1))) \<inter> set (keys (fst (parse_table html2))) = {}
                       \<longrightarrow> dict_update (fst (parse_table html1)) (fst (parse_table html2))
                           = fst (parse_table html1) @ fst (parse_table html2))))"
proof -
  have counts: "length (filter is_click (new_commands w w')) \<le> 1
         \<and> length (filter is_page_source (new_commands w w')) \<le> 2"
    using run by (auto simp: scrape_defs split: option.splits if_splits prod.splits sum.splits)
  have one: "r = Inr (fst (parse_table html1)) \<and> stock_data s' = fst (parse_table html1)
                \<and> filter is_click (new_commands w w') = []
                \<and> length (filter is_page_source (new_commands w w')) = 1
                \<and> new_commands w w' =
                    [New_session (scrapes w), Get (scrapes w), Wait_for_table (scrapes w),
                     Page_source (scrapes w), Find_next (scrapes w), Quit (scrapes w)]"
    if "chrome_ok (web (scrapes w))" "get_ok (web (scrapes w))" "wait_ok (web (scrapes w))"
       "page1 (web (scrapes w)) = Some html1" "quit_ok (web (scrapes w))"
       "\<not> next_probe (web (scrapes w))"
    using run that by (auto simp: scrape_defs split: option.splits if_splits prod.splits sum.splits)
  have two: "r = Inr (dict_update (fst (parse_table html1)) (fst (parse_table html2)))
                  \<and> stock_data s' = dict_update (fst (parse_table html1)) (fst (parse_table html2))
                  \<and> (next_found (web (scrapes w)) \<longrightarrow> length (filter is_click (new_commands w w')) = 1)
                  \<and> length (filter is_page_source (new_commands w w')) = 2
                  \<and> new_commands w w' =
                      [New_session (scrapes w), Get (scrapes w), Wait_for_table (scrapes w),
                       Page_source (scrapes w), Find_next (scrapes w), Find_next (scrapes w)]
                      @ (if next_found (web (scrapes w)) then [Click (scrapes w)] else [])
                      @ [Page_source (scrapes w), Quit (scrapes w)]"
    if "chrome_ok (web (scrapes w))" "get_ok (web (scrapes w))" "wait_ok (web (scrapes w))"
       "page1 (web (scrapes w)) = Some html1" "quit_ok (web (scrapes w))"
       "next_probe (web (scrapes w))" "page2 (web (scrapes w)) = Some html2"
    using run that by (auto simp: scrape_defs split: option.splits if_splits prod.splits sum.splits)
  have merge: "dict_get (dict_update (fst (parse_table html1)) (fst (parse_table html2))) n
                         = (case dict_get (fst (parse_table html2)) n of
                              Some v \<Rightarrow> Some v
                            | None \<Rightarrow> dict_get (fst (parse_table html1)) n)" for n
    using distinct_parse_table by (rule dict_get_update)
  have union: "dict_update (fst (parse_table html1)) (fst (parse_table html2))
                           = fst (parse_table html1) @ fst (parse_table html2)"
    if "set (keys (fst (parse_table html1))) \<inter> set (keys (fst (parse_table html2))) = {}"
    using distinct_parse_table that by (intro dict_update_disjoint) (auto simp: keys_def)
  show ?thesis using counts one two merge union by blast
qed

lemma page_A_result: "fst (parse_table page_A) = [(''A'', Finite 10)]"
  by code_simp

lemma page_B_result: "fst (parse_table page_B) = [(''B'', Finite 20)]"
  by code_simp

text \<open>
  Page 1 with \<open>A\<close> at 10.0 and page 2 with \<open>B\<close> at 20.0 merge into both entries, the
  click coming between the two reads; the example page without link gives its own two
  entries after a single read.
\<close>

theorem pagination_traversal_witness:
  "fst (scrape_all_prices (\<lambda>n. script_two_pages) (ScreenerPriceScraper_init True) world0)
     = Inr [(''A'', Finite 10), (''B'', Finite 20)]
   \<and> new_commands world0
        (snd (snd (scrape_all_prices (\<lambda>n. script_two_pages) (ScreenerPriceScraper_init True) world0)))
     = [New_session 0, Get 0, Wait_for_table 0, Page_source 0, Find_next 0, Find_next 0, Click 0,
        Page_source 0, Quit 0]
   \<and> fst (scrape_all_prices (\<lambda>n. script_one_page) (ScreenerPriceScraper_init True) world0)
     = Inr [(''Reliance Industries'', Finite (6127 / 4)), (''HDFC Bank'', Finite 1004)]
   \<and> new_commands world0
        (snd (snd (scrape_all_prices (\<lambda>n. script_one_page) (ScreenerPriceScraper_init True) world0)))
     = [New_session 0, Get 0, Wait_for_table 0, Page_source 0, Find_next 0, Quit 0]"
  using pagination_traversal [of "\<lambda>n. script_two_pages" "ScreenerPriceScraper_init True" world0
      "fst (scrape_all_prices (\<lambda>n. script_two_pages) (ScreenerPriceScraper_init True) world0)"
      "fst (snd (scrape_all_prices (\<lambda>n. script_two_pages) (ScreenerPriceScraper_init True) world0))"
      "snd (snd (scrape_all_prices (\<lambda>n. script_two_pages) (ScreenerPriceScraper_init True) world0))"
      page_A page_B]
    pagination_traversal [of "\<lambda>n. script_one_page" "ScreenerPriceScraper_init True" world0
      "fst (scrape_all_prices (\<lambda>n. script_one_page) (ScreenerPriceScraper_init True) world0)"
      "fst (snd (scrape_all_prices (\<lambda>n. script_one_page) (ScreenerPriceScraper_init True) world0))"
      "snd (snd (scrape_all_prices (\<lambda>n. script_one_page) (ScreenerPriceScraper_init True) world0))"
      example_page page_B]
  by (simp add: script_two_pages_def script_one_page_def world0_def page_A_result page_B_result
        example_result keys_def dict_update_def)

section \<open>Properties of the lookup\<close>

lemma partial_match_find:
  "partial_match ql t = map_option snd (find (\<lambda>(n, p). py_in ql (lower n)) t)"
  by (induction ql t rule: partial_match.induct) auto

lemma py_in_Nil: "py_in [] s"
  by (induction s) auto

lemma py_in_iff: "py_in sub s \<longleftrightarrow> (\<exists>pre post. s = pre @ sub @ post)"
proof (induction s)
  case Nil
  then show ?case by auto
next
  case (Cons c cs)
  show ?case
  proof
    assume "py_in sub (c # cs)"
    then consider "take (length sub) (c # cs) = sub" | "py_in sub cs" by auto
    then show "\<exists>pre post. c # cs = pre @ sub @ post"
    proof cases
      case 1
      then have "c # cs = [] @ sub @ drop (length sub) (c # cs)"
        by (metis append_Nil append_take_drop_id)
      then show ?thesis by blast
    next
      case 2
      then obtain pre post where "cs = pre @ sub @ post" using Cons.IH by blast
      then have "c # cs = (c # pre) @ sub @ post" by simp
      then show ?thesis by blast
    qed
  next
    assume "\<exists>pre post. c # cs = pre @ sub @ post"
    then obtain pre post where eq: "c # cs = pre @ sub @ post" by blast
    show "py_in sub (c # cs)"
    proof (cases pre)
      case Nil
      then have "take (length sub) (c # cs) = sub" using eq by simp
      then show ?thesis by simp
    next
      case (Cons a pre')
      then have "cs = pre' @ sub @ post" using eq by simp
      then have "py_in sub cs" using Cons.IH by blast
      then show ?thesis by simp
    qed
  qed
qed

lemma get_price_loaded:
  "stock_data s \<noteq> [] \<Longrightarrow>
     ScreenerPriceScraper_get_price web q s w =
       (Inr (case dict_get (stock_data s) q of
               Some p \<Rightarrow> Some p
             | None \<Rightarrow> partial_match (lower q) (stock_data s)), s, w)"
  by (simp add: ScreenerPriceScraper_get_price_def split: option.splits)

lemma get_price_unloaded:
  "stock_data s = [] \<Longrightarrow> ScreenerPriceScraper_get_price web q s w = (r, s1, w1) \<Longrightarrow>
     scrapes w1 = Suc (scrapes w)"
  by (auto simp: ScreenerPriceScraper_get_price_def Let_def
           split: option.splits prod.splits sum.splits dest: scrape_counts)

lemma get_price_resolves:
  "ScreenerPriceScraper_get_price web q s w = (Inr res, s1, w1) \<Longrightarrow>
     res = (case dict_get (stock_data s1) q of
              Some p \<Rightarrow> Some p
            | None \<Rightarrow> partial_match (lower q) (stock_data s1))"
  by (auto simp: ScreenerPriceScraper_get_price_def Let_def
           split: option.splits prod.splits sum.splits if_splits)

text \<open>
  Claim C4, as the code has it (lookup resolution order). On a table that is not empty
  \<^verbatim>\<open>get_price\<close> scrapes nothing and returns the price stored under the query when the
  query is a key, compared exactly; otherwise the price of the first entry in iteration
  order whose lowercased name contains the lowercased query; otherwise \<open>None\<close>. On an
  empty table \<^verbatim>\<open>get_price\<close> scrapes first, and every lookup that returns is resolved in
  the same order against the table the scraper holds after that.
\<close>

theorem lookup_resolution_order:
  "(stock_data s \<noteq> [] \<longrightarrow>
      ScreenerPriceScraper_get_price web q s w =
        (Inr (case dict_get (stock_data s) q of
                Some p \<Rightarrow> Some p
              | None \<Rightarrow> map_option snd (find (\<lambda>(n, p). py_in (lower q) (lower n)) (stock_data s))),
         s, w))
   \<and> (ScreenerPriceScraper_get_price web q s w = (Inr res, s1, w1) \<longrightarrow>
        res = (case dict_get (stock_data s1) q of
                 Some p \<Rightarrow> Some p
               | None \<Rightarrow> map_option snd (find (\<lambda>(n, p). py_in (lower q) (lower n)) (stock_data s1))))"
  using get_price_loaded [of s web q w] get_price_resolves [of web q s w res s1 w1]
  by (auto simp: partial_match_find split: option.splits)

lemma tcs_exact: "dict_get tcs_table ''TCS'' = Some (Finite 20)"
  by code_simp

lemma tcs_lower_exact: "dict_get tcs_table ''tcs'' = None"
  by code_simp

lemma tcs_lower_partial:
  "find (\<lambda>(n, p). py_in (lower ''tcs'') (lower n)) tcs_table = Some (''TCS Digital'', Finite 10)"
  by code_simp

lemma tcs_other_exact: "dict_get tcs_table ''Infosys'' = None"
  by code_simp

lemma tcs_other_partial: "find (\<lambda>(n, p). py_in (lower ''Infosys'') (lower n)) tcs_table = None"
  by code_simp

lemma tcs_scraper_data: "stock_data tcs_scraper = tcs_table \<and> tcs_table \<noteq> []"
  by (simp add: tcs_scraper_def tcs_table_def)

text \<open>
  The table lists \<open>TCS Digital\<close> before \<open>TCS\<close>: the query \<open>TCS\<close> gives the exact entry, the
  query \<open>tcs\<close> the first name that contains it, and \<open>Infosys\<close> nothing.
\<close>

theorem lookup_resolution_order_witness:
  "fst (ScreenerPriceScraper_get_price (\<lambda>n. script_one_page) ''TCS'' tcs_scraper world0)
     = Inr (Some (Finite 20))
   \<and> fst (ScreenerPriceScraper_get_price (\<lambda>n. script_one_page) ''tcs'' tcs_scraper world0)
     = Inr (Some (Finite 10))
   \<and> fst (ScreenerPriceScraper_get_price (\<lambda>n. script_one_page) ''Infosys'' tcs_scraper world0)
     = Inr None
   \<and> snd (ScreenerPriceScraper_get_price (\<lambda>n. script_one_page) ''TCS'' tcs_scraper world0)
     = (tcs_scraper, world0)"
  using lookup_resolution_order [of tcs_scraper "\<lambda>n. script_one_page" "''TCS''" world0 None tcs_scraper world0]
    lookup_resolution_order [of tcs_scraper "\<lambda>n. script_one_page" "''tcs''" world0 None tcs_scraper world0]
    lookup_resolution_order [of tcs_scraper "\<lambda>n. script_one_page" "''Infosys''" world0 None tcs_scraper world0]
  by (simp add: tcs_scraper_data tcs_exact tcs_lower_exact tcs_lower_partial tcs_other_exact
        tcs_other_partial)

lemma retry_first_value:
  "retry_first =
     (Inr None, \<lparr>headless = True, driver = Some 0, stock_data = []\<rparr>,
      \<lparr>scrapes = 1,
       issued = [New_session 0, Get 0, Wait_for_table 0, Page_source 0, Find_next 0, Quit 0]\<rparr>)"
  by (simp add: retry_first_def web_retry_def ScreenerPriceScraper_get_price_def scrape_defs
        script_no_table_def world0_def ScreenerPriceScraper_init_def no_table_result dict_get_def)

lemma retry_second_result: "fst retry_second = Inr (Some (Finite 10))"
  by (simp add: retry_second_def retry_first_value web_retry_def ScreenerPriceScraper_get_price_def
        scrape_defs script_two_pages_def page_A_result page_B_result dict_get_def dict_update_def)

text \<open>
  A table that was loaded and is empty does not answer "not found": the first lookup
  loads an empty table and finds nothing, the second lookup of the same name scrapes
  again and returns 10.0.
\<close>

theorem empty_table_lookup_counterexample:
  "fst retry_first = Inr None \<and> stock_data (fst (snd retry_first)) = []
   \<and> fst retry_second = Inr (Some (Finite 10))"
  by (simp add: retry_first_value retry_second_result)

text \<open>
  Claim C3, as the code has it (lazy load on first use). The first \<^verbatim>\<open>get_price\<close> on a
  fresh scraper runs exactly one scrape. Every later lookup runs no scrape and leaves
  scraper and browser untouched as long as the table is not empty; a table that is still
  empty counts as not loaded, and the next lookup scrapes once more. Through
  \<^verbatim>\<open>InteractiveStockFetcher\<close>, a first \<^verbatim>\<open>load_prices\<close> that returns has run exactly one
  scrape, and every later \<^verbatim>\<open>search_stock\<close> runs none, whatever the scrape returned.
\<close>

theorem lazy_load:
  "(ScreenerPriceScraper_get_price web q (ScreenerPriceScraper_init h) w = (r1, s1, w1) \<longrightarrow>
      scrapes w1 = Suc (scrapes w)
      \<and> (stock_data s1 \<noteq> [] \<longrightarrow>
           (\<forall>q2. snd (ScreenerPriceScraper_get_price web q2 s1 w1) = (s1, w1)))
      \<and> (stock_data s1 = [] \<longrightarrow>
           (\<forall>q2. scrapes (snd (snd (ScreenerPriceScraper_get_price web q2 s1 w1))) = Suc (scrapes w1))))
   \<and> (load_prices web InteractiveStockFetcher_init w = (Inr u, f1, w1') \<longrightarrow>
        scrapes w1' = Suc (scrapes w)
        \<and> (\<forall>q2. snd (search_stock web q2 f1 w1') = (f1, w1')))"
proof (intro conjI impI allI)
  assume run: "ScreenerPriceScraper_get_price web q (ScreenerPriceScraper_init h) w = (r1, s1, w1)"
  show "scrapes w1 = Suc (scrapes w)"
    using run by (intro get_price_unloaded [of "ScreenerPriceScraper_init h" web q w r1 s1 w1])
      (simp_all add: ScreenerPriceScraper_init_def)
next
  fix q2
  assume "stock_data s1 \<noteq> []"
  then show "snd (ScreenerPriceScraper_get_price web q2 s1 w1) = (s1, w1)"
    by (simp add: get_price_loaded)
next
  fix q2
  assume empty: "stock_data s1 = []"
  obtain r2 s2 w2 where run2: "ScreenerPriceScraper_get_price web q2 s1 w1 = (r2, s2, w2)"
    by (cases "ScreenerPriceScraper_get_price web q2 s1 w1") auto
  show "scrapes (snd (snd (ScreenerPriceScraper_get_price web q2 s1 w1))) = Suc (scrapes w1)"
    using get_price_unloaded [OF empty run2] run2 by simp
next
  assume run: "load_prices web InteractiveStockFetcher_init w = (Inr u, f1, w1')"
  then show "scrapes w1' = Suc (scrapes w)"
    by (auto simp: load_prices_def InteractiveStockFetcher_init_def
            split: prod.splits sum.splits dest: scrape_counts)
next
  fix q2
  assume run: "load_prices web InteractiveStockFetcher_init w = (Inr u, f1, w1')"
  then have "prices_loaded f1"
    by (auto simp: load_prices_def InteractiveStockFetcher_init_def split: prod.splits sum.splits)
  then show "snd (search_stock web q2 f1 w1') = (f1, w1')"
    by (simp add: search_stock_def)
qed

lemma lazy_first_value:
  "lazy_first =
     (Inr None, \<lparr>headless = True, driver = Some 0, stock_data = []\<rparr>,
      \<lparr>scrapes = 1,
       issued = [New_session 0, Get 0, Wait_for_table 0, Page_source 0, Find_next 0, Quit 0]\<rparr>)"
  by (simp add: lazy_first_def ScreenerPriceScraper_get_price_def scrape_defs script_no_table_def
        world0_def ScreenerPriceScraper_init_def no_table_result dict_get_def)

lemma lazy_second_value:
  "lazy_second =
     (Inr None, \<lparr>headless = True, driver = Some 1, stock_data = []\<rparr>,
      \<lparr>scrapes = 2,
       issued = [New_session 0, Get 0, Wait_for_table 0, Page_source 0, Find_next 0, Quit 0,
                 New_session 1, Get 1, Wait_for_table 1, Page_source 1, Find_next 1, Quit 1]\<rparr>)"
  by (simp add: lazy_second_def lazy_first_value ScreenerPriceScraper_get_price_def scrape_defs
        script_no_table_def no_table_result dict_get_def)

text \<open>
  Two lookups on a fresh scraper, the scrape finding no table each time: the second lookup
  scrapes again.
\<close>

theorem second_lookup_scrapes_again_counterexample:
  "scrapes (snd (snd lazy_first)) = 1 \<and> scrapes (snd (snd lazy_second)) = 2"
  by (simp add: lazy_first_value lazy_second_value)

lemma loaded_first_data:
  "stock_data (fst (snd loaded_first))
     = [(''Reliance Industries'', Finite (6127 / 4)), (''HDFC Bank'', Finite 1004)]"
  by (simp add: loaded_first_def ScreenerPriceScraper_get_price_def scrape_defs script_one_page_def
        world0_def ScreenerPriceScraper_init_def example_result dict_get_def)

lemma fetch_first_value:
  "fst fetch_first = Inr () \<and> stock_data (scraper (fst (snd fetch_first))) = []"
  by (simp add: fetch_first_def load_prices_def InteractiveStockFetcher_init_def scrape_defs
        script_no_table_def world0_def ScreenerPriceScraper_init_def no_table_result)

text \<open>
  The three cases of the theorem at concrete inputs: a first lookup that loads the example
  page, a first lookup that loads nothing, and a first load through the fetcher.
\<close>

theorem lazy_load_witness:
  "scrapes (snd (snd loaded_first)) = 1
   \<and> stock_data (fst (snd loaded_first)) \<noteq> []
   \<and> snd (ScreenerPriceScraper_get_price (\<lambda>n. script_one_page) ''TCS''
            (fst (snd loaded_first)) (snd (snd loaded_first))) = snd loaded_first
   \<and> scrapes (snd (snd lazy_first)) = 1
   \<and> stock_data (fst (snd lazy_first)) = []
   \<and> scrapes (snd (snd (ScreenerPriceScraper_get_price (\<lambda>n. script_no_table) ''TCS''
            (fst (snd lazy_first)) (snd (snd lazy_first))))) = 2
   \<and> fst fetch_first = Inr ()
   \<and> scrapes (snd (snd fetch_first)) = 1
   \<and> stock_data (scraper (fst (snd fetch_first))) = []
   \<and> snd (search_stock (\<lambda>n. script_no_table) ''TCS'' (fst (snd fetch_first))
            (snd (snd fetch_first))) = snd fetch_first"
proof -
  have a: "ScreenerPriceScraper_get_price (\<lambda>n. script_one_page) ''HDFC''
             (ScreenerPriceScraper_init True) world0
           = (fst loaded_first, fst (snd loaded_first), snd (snd loaded_first))"
    by (simp add: loaded_first_def)
  have b: "ScreenerPriceScraper_get_price (\<lambda>n. script_no_table) ''TCS''
             (ScreenerPriceScraper_init True) world0
           = (fst lazy_first, fst (snd lazy_first), snd (snd lazy_first))"
    by (simp add: lazy_first_def)
  have c: "load_prices (\<lambda>n. script_no_table) InteractiveStockFetcher_init world0
           = (Inr (), fst (snd fetch_first), snd (snd fetch_first))"
    using fetch_first_value by (simp add: fetch_first_def prod_eq_iff)
  have w0: "scrapes world0 = 0" by (simp add: world0_def)
  have e: "stock_data (fst (snd lazy_first)) = []" by (simp add: lazy_first_value)
  show ?thesis
    using lazy_load [of "\<lambda>n. script_one_page" "''HDFC''" True world0
        "fst loaded_first" "fst (snd loaded_first)" "snd (snd loaded_first)"
        "()" "fst (snd fetch_first)" "snd (snd fetch_first)"]
      lazy_load [of "\<lambda>n. script_no_table" "''TCS''" True world0
        "fst lazy_first" "fst (snd lazy_first)" "snd (snd lazy_first)"
        "()" "fst (snd fetch_first)" "snd (snd fetch_first)"]
      a b c e fetch_first_value
    by (simp add: w0 loaded_first_data)
qed

text \<open>
  Claim C10 (the empty query returns everything). On a fetcher whose prices are loaded,
  \<^verbatim>\<open>search_stock\<close> with the empty query, or with any query whose lowercased form occurs in
  every lowercased name, returns all entries of the table in iteration order, without
  scraping.
\<close>

theorem empty_query_returns_all:
  "prices_loaded f \<Longrightarrow>
     q = [] \<or> (\<forall>(n, p)\<in>set (stock_data (scraper f)). py_in (lower q) (lower n)) \<Longrightarrow>
     search_stock web q f w = (Inr (stock_data (scraper f)), f, w)"
  by (auto simp: search_stock_def lower_def py_in_Nil)

lemma tcs_all_match: "\<forall>(n, p)\<in>set tcs_table. py_in (lower ''tcs'') (lower n)"
  by code_simp

text \<open>The loaded table of two names, both of which contain \<open>tcs\<close>.\<close>

theorem empty_query_returns_all_witness:
  "search_stock (\<lambda>n. script_one_page) [] tcs_fetcher world0 = (Inr tcs_table, tcs_fetcher, world0)
   \<and> search_stock (\<lambda>n. script_one_page) ''tcs'' tcs_fetcher world0
       = (Inr tcs_table, tcs_fetcher, world0)"
proof -
  have l: "prices_loaded tcs_fetcher" and d: "stock_data (scraper tcs_fetcher) = tcs_table"
    by (simp_all add: tcs_fetcher_def tcs_scraper_def)
  show ?thesis
    using empty_query_returns_all [of tcs_fetcher "[]" "\<lambda>n. script_one_page" world0, OF l]
      empty_query_returns_all [of tcs_fetcher "''tcs''" "\<lambda>n. script_one_page" world0, OF l]
      tcs_all_match
    by (simp add: d)
qed

end
